theory Spec2Isabelle
  imports Main "HOL-Library.Monad_Syntax"
begin

section \<open>Data model (types.ts)\<close>

text \<open>
  JavaScript strings are modelled as HOL strings: one \<open>char\<close> stands for one code unit
  (the model covers code units below 256). Field names carry a prefix where the
  TypeScript name is taken in HOL (\<open>id\<close>, \<open>text\<close>, \<open>type\<close>).
\<close>

datatype ChatRole = User | Model

record Attachment =
  a_name :: string
  a_type :: string
  a_url :: string
  a_data :: string

text \<open>\<open>attachments?\<close> is an optional property: \<open>None\<close> is the absent key.\<close>

record ChatMessage =
  m_id :: string
  m_role :: ChatRole
  m_text :: string
  m_attachments :: "Attachment list option"

record ChatSession =
  s_id :: string
  s_title :: string
  s_messages :: "ChatMessage list"
  s_createdAt :: string

datatype View = Main | Chat | History | Call

text \<open>
  The backend handle held in \<open>chatRef.current\<close>. Only its presence matters to the
  controller; the number tells one handle from another.
\<close>

datatype ChatHandle = Handle nat

text \<open>The component state: the five \<open>useState\<close> cells and the \<open>chatRef\<close> cell.\<close>

record App =
  view :: View
  sessions :: "ChatSession list"
  currentSessionId :: "string option"
  isLoading :: bool
  error :: "string option"
  chatRef :: "ChatHandle option"

definition initialApp :: App where
  "initialApp = \<lparr>view = Main, sessions = [], currentSessionId = None,
     isLoading = False, error = None, chatRef = None\<rparr>"

text \<open>
  A browser \<open>File\<close> as the program sees it: its name and MIME type, together with the
  two values the platform yields for it (\<open>URL.createObjectURL(file)\<close> and the string
  \<open>fileToBase64(file)\<close> resolves to).
\<close>

record File =
  f_name :: string
  f_type :: string
  f_url :: string
  f_data :: string

section \<open>Identifiers minted from the clock\<close>

text \<open>
  \<open>Date.now()\<close> is a number of milliseconds, a natural number here; a template
  literal prints it in decimal without leading zeros.
\<close>

definition digit :: "nat \<Rightarrow> char" where
  "digit d = ''0123456789'' ! d"

fun decimal :: "nat \<Rightarrow> string" where
  "decimal n = (if n < 10 then [digit n] else decimal (n div 10) @ [digit (n mod 10)])"

declare decimal.simps [simp del]

text \<open>\<open>`session-${Date.now()}`\<close>, line 89.\<close>

definition sessionIdAt :: "nat \<Rightarrow> string" where
  "sessionIdAt now = ''session-'' @ decimal now"

text \<open>\<open>`msg-${Date.now()}`\<close>, line 113.\<close>

definition userMessageIdAt :: "nat \<Rightarrow> string" where
  "userMessageIdAt now = ''msg-'' @ decimal now"

text \<open>\<open>`msg-${Date.now()}-model`\<close>, line 133.\<close>

definition modelMessageIdAt :: "nat \<Rightarrow> string" where
  "modelMessageIdAt now = ''msg-'' @ decimal now @ ''-model''"

text \<open>\<open>`err-${Date.now()}`\<close>, line 147.\<close>

definition errorMessageIdAt :: "nat \<Rightarrow> string" where
  "errorMessageIdAt now = ''err-'' @ decimal now"

section \<open>Building the records\<close>

text \<open>Lines 91 to 96; \<open>text.substring(0, 40) || "New Chat"\<close> falls back on the empty string.\<close>

definition newSession :: "string \<Rightarrow> string \<Rightarrow> string \<Rightarrow> ChatSession" where
  "newSession sessionId text' createdAt =
     \<lparr>s_id = sessionId,
      s_title = (let t = take 40 text' in if t = [] then ''New Chat'' else t),
      s_messages = [],
      s_createdAt = createdAt\<rparr>"

text \<open>Lines 101 to 109, one file of \<open>files.map\<close>.\<close>

definition toAttachment :: "File \<Rightarrow> Attachment" where
  "toAttachment file =
     \<lparr>a_name = f_name file, a_type = f_type file, a_url = f_url file, a_data = f_data file\<rparr>"

text \<open>Lines 112 to 117.\<close>

definition userMessage :: "nat \<Rightarrow> string \<Rightarrow> Attachment list \<Rightarrow> ChatMessage" where
  "userMessage now text' attachments =
     \<lparr>m_id = userMessageIdAt now, m_role = User, m_text = text',
      m_attachments = Some attachments\<rparr>"

text \<open>Line 134: the placeholder, created without an \<open>attachments\<close> key.\<close>

definition modelMessage :: "string \<Rightarrow> ChatMessage" where
  "modelMessage modelMessageId =
     \<lparr>m_id = modelMessageId, m_role = Model, m_text = [], m_attachments = None\<rparr>"

text \<open>Lines 145 to 147.\<close>

definition errorMessage :: string where
  "errorMessage = ''An error occurred. Please try again.''"

definition errorMsg :: "nat \<Rightarrow> ChatMessage" where
  "errorMsg now =
     \<lparr>m_id = errorMessageIdAt now, m_role = Model, m_text = errorMessage,
      m_attachments = None\<rparr>"

section \<open>Session store updates\<close>

text \<open>The callbacks handed to \<open>setSessions\<close>; each maps the previous list to the next.\<close>

text \<open>Line 97: \<open>prev => [newSession, ...prev]\<close>.\<close>

definition prependSession :: "ChatSession \<Rightarrow> ChatSession list \<Rightarrow> ChatSession list" where
  "prependSession session prev = session # prev"

text \<open>
  Lines 119, 137 and 148:
  \<open>prev => prev.map(s => s.id === sessionId ? {...s, messages: [...s.messages, message]} : s)\<close>.
\<close>

definition appendMessage :: "string \<Rightarrow> ChatMessage \<Rightarrow> ChatSession list \<Rightarrow> ChatSession list" where
  "appendMessage sessionId message prev =
     map (\<lambda>s. if s_id s = sessionId then s\<lparr>s_messages := s_messages s @ [message]\<rparr> else s) prev"

text \<open>Line 141: every message of the session carrying the placeholder's id gets the text.\<close>

definition foldResponse :: "string \<Rightarrow> string \<Rightarrow> string \<Rightarrow> ChatSession list \<Rightarrow> ChatSession list" where
  "foldResponse sessionId modelMessageId modelResponse prev =
     map (\<lambda>s. if s_id s = sessionId
               then s\<lparr>s_messages :=
                      map (\<lambda>m. if m_id m = modelMessageId then m\<lparr>m_text := modelResponse\<rparr> else m)
                        (s_messages s)\<rparr>
               else s) prev"

text \<open>Line 168: \<open>sessions.find(s => s.id === currentSessionId)?.messages || []\<close>.\<close>

definition findSession :: "string \<Rightarrow> ChatSession list \<Rightarrow> ChatSession option" where
  "findSession sessionId ss = find (\<lambda>s. s_id s = sessionId) ss"

definition messagesOf :: "string \<Rightarrow> ChatSession list \<Rightarrow> ChatMessage list" where
  "messagesOf sessionId ss =
     (case findSession sessionId ss of None \<Rightarrow> [] | Some s \<Rightarrow> s_messages s)"

definition currentMessages :: "App \<Rightarrow> ChatMessage list" where
  "currentMessages st =
     (case currentSessionId st of
        None \<Rightarrow> []
      | Some sessionId \<Rightarrow> messagesOf sessionId (sessions st))"

section \<open>Controller actions\<close>

text \<open>
  \<open>initializeChat\<close> (lines 48 to 68) runs up to its \<open>await\<close>, and later settles with
  the outcome of \<open>startChatSession()\<close>: a handle, or \<open>None\<close> when the promise rejects.
\<close>

definition initializeChat_begin :: "App \<Rightarrow> App" where
  "initializeChat_begin st = st\<lparr>isLoading := True\<rparr>"

definition initializeChat_settle :: "ChatHandle option \<Rightarrow> App \<Rightarrow> App" where
  "initializeChat_settle outcome st =
     (case outcome of
        Some chat \<Rightarrow> st\<lparr>chatRef := Some chat, error := None, isLoading := False\<rparr>
      | None \<Rightarrow> st\<lparr>error := Some ''Failed to initialize chat session. Check API key.'',
                   isLoading := False\<rparr>)"

text \<open>Lines 154 to 159.\<close>

definition startNewChat :: "App \<Rightarrow> App" where
  "startNewChat st =
     (initializeChat_begin (st\<lparr>currentSessionId := None, chatRef := None\<rparr>))\<lparr>view := Main\<rparr>"

text \<open>Lines 161 to 166.\<close>

definition loadChat :: "string \<Rightarrow> App \<Rightarrow> App" where
  "loadChat sessionId st =
     (initializeChat_begin (st\<lparr>currentSessionId := Some sessionId, chatRef := None\<rparr>))\<lparr>view := Chat\<rparr>"

text \<open>
  What can happen while a send is suspended at an \<open>await\<close>: the callbacks passed to the
  views (lines 171 to 218) and the settling of a pending \<open>initializeChat\<close>.
  A JavaScript string is falsy exactly when it is empty.
\<close>

datatype ui_event =
    LoadChat string
  | StartNewChat
  | InitializeChat
  | ChatSettled "ChatHandle option"
  | ShowHistory
  | Back
  | StartCall
  | EndCall

fun ui_step :: "ui_event \<Rightarrow> App \<Rightarrow> App" where
  "ui_step (LoadChat sessionId) st = loadChat sessionId st"
| "ui_step StartNewChat st = startNewChat st"
| "ui_step InitializeChat st = initializeChat_begin st"
| "ui_step (ChatSettled outcome) st = initializeChat_settle outcome st"
| "ui_step ShowHistory st = st\<lparr>view := History\<rparr>"
| "ui_step Back st =
     st\<lparr>view := (case currentSessionId st of
                    None \<Rightarrow> Main
                  | Some sessionId \<Rightarrow> if sessionId = [] then Main else Chat)\<rparr>"
| "ui_step StartCall st = (initializeChat_begin st)\<lparr>view := Call\<rparr>"
| "ui_step EndCall st = st\<lparr>view := Chat\<rparr>"

section \<open>handleSendMessage\<close>

text \<open>
  \<open>String.prototype.trim\<close> strips white space and line terminators from both ends;
  these are the ones among the code units below 256.
\<close>

definition isWhiteSpace :: "char \<Rightarrow> bool" where
  "isWhiteSpace c = ((of_char c :: nat) \<in> {9, 10, 11, 12, 13, 32, 160})"

definition trim :: "string \<Rightarrow> string" where
  "trim s = rev (dropWhile isWhiteSpace (rev (dropWhile isWhiteSpace s)))"

text \<open>
  Lines 79 to 98, up to the first \<open>await\<close>. \<open>None\<close> is the early \<open>return\<close> of line 79;
  otherwise the session id the rest of the call works on, and the state.
  \<open>now\<close> is \<open>Date.now()\<close> of line 89 and \<open>createdAt\<close> the time stamp of line 95.
  The calls into the speech hook touch nothing of this state.
\<close>

definition handleSendMessage_begin ::
    "nat \<Rightarrow> string \<Rightarrow> string \<Rightarrow> File list \<Rightarrow> App \<Rightarrow> (string \<times> App) option" where
  "handleSendMessage_begin now createdAt text' files st =
     (if (trim text' = [] \<and> length files = 0) \<or> chatRef st = None then None
      else
        let st1 = st\<lparr>isLoading := True, error := None\<rparr> in
        (case currentSessionId st of
           Some sessionId \<Rightarrow>
             if sessionId \<noteq> [] then Some (sessionId, st1)
             else
               let sessionId = sessionIdAt now in
               Some (sessionId,
                 st1\<lparr>currentSessionId := Some sessionId,
                     sessions := prependSession (newSession sessionId text' createdAt) (sessions st1)\<rparr>)
         | None \<Rightarrow>
             let sessionId = sessionIdAt now in
             Some (sessionId,
               st1\<lparr>currentSessionId := Some sessionId,
                   sessions := prependSession (newSession sessionId text' createdAt) (sessions st1)\<rparr>)))"

text \<open>
  Lines 100 to 120, after the attachments are ready. \<open>view0\<close> is the \<open>view\<close> the callback
  closed over when the call started.
\<close>

definition handleSendMessage_user ::
    "nat \<Rightarrow> View \<Rightarrow> string \<Rightarrow> string \<Rightarrow> File list \<Rightarrow> App \<Rightarrow> App" where
  "handleSendMessage_user now view0 sessionId text' files st =
     (let attachments = map toAttachment files;
          st1 = st\<lparr>sessions := appendMessage sessionId (userMessage now text' attachments) (sessions st)\<rparr>
      in if view0 = Main then st1\<lparr>view := Chat\<rparr> else st1)"

text \<open>Lines 123 to 128: the request parts sent to the backend.\<close>

datatype gemini_part = TextPart string | InlineData string string

definition geminiParts :: "string \<Rightarrow> Attachment list \<Rightarrow> gemini_part list" where
  "geminiParts text' attachments =
     TextPart text' # map (\<lambda>att. InlineData (a_type att) (a_data att)) attachments"

text \<open>
  Lines 139 to 142. Between two fragments the loop is suspended and the controller may
  handle other events; the stream delivers its items in this order.
\<close>

datatype stream_item = Fragment string | Meanwhile ui_event

fun consume :: "string \<Rightarrow> string \<Rightarrow> string \<Rightarrow> stream_item list \<Rightarrow> App \<Rightarrow> App" where
  "consume sessionId modelMessageId modelResponse [] st = st"
| "consume sessionId modelMessageId modelResponse (Fragment chunk # rest) st =
     (let modelResponse = modelResponse @ chunk in
      consume sessionId modelMessageId modelResponse rest
        (st\<lparr>sessions := foldResponse sessionId modelMessageId modelResponse (sessions st)\<rparr>))"
| "consume sessionId modelMessageId modelResponse (Meanwhile e # rest) st =
     consume sessionId modelMessageId modelResponse rest (ui_step e st)"

text \<open>Lines 133 to 137: the placeholder enters the session under the id fixed here.\<close>

definition handleSendMessage_placeholder :: "string \<Rightarrow> string \<Rightarrow> App \<Rightarrow> App" where
  "handleSendMessage_placeholder sessionId modelMessageId st =
     st\<lparr>sessions := appendMessage sessionId (modelMessage modelMessageId) (sessions st)\<rparr>"

text \<open>Lines 143 to 148, the \<open>catch\<close> block.\<close>

definition handleSendMessage_catch :: "nat \<Rightarrow> string \<Rightarrow> App \<Rightarrow> App" where
  "handleSendMessage_catch now sessionId st =
     st\<lparr>error := Some errorMessage,
        sessions := appendMessage sessionId (errorMsg now) (sessions st)\<rparr>"

text \<open>
  What the environment contributes to one call: the clock readings, the events handled
  while the call is suspended, and the behaviour of the backend stream.
\<close>

record Script =
  nowSession :: nat
  isoCreated :: string
  duringFiles :: "ui_event list"
  nowUser :: nat
  duringOpen :: "ui_event list"
  opened :: bool
  nowModel :: nat
  stream :: "stream_item list"
  faulted :: bool
  nowError :: nat

text \<open>
  Lines 122 to 151: \<open>try\<close>, \<open>catch\<close>, \<open>finally\<close>. Reading \<open>sendMessageStream\<close> off a
  \<open>chatRef.current\<close> that is null throws at once; the promise may reject
  (\<open>opened\<close> is false); the iteration may throw after the items of \<open>stream\<close>
  (\<open>faulted\<close>).
\<close>

definition handleSendMessage_try :: "Script \<Rightarrow> string \<Rightarrow> App \<Rightarrow> App" where
  "handleSendMessage_try sc sessionId st =
     (let st' =
        (if chatRef st = None then handleSendMessage_catch (nowError sc) sessionId st
         else
           let st1 = fold ui_step (duringOpen sc) st in
           if \<not> opened sc then handleSendMessage_catch (nowError sc) sessionId st1
           else
             let modelMessageId = modelMessageIdAt (nowModel sc);
                 st2 = handleSendMessage_placeholder sessionId modelMessageId st1;
                 st3 = consume sessionId modelMessageId [] (stream sc) st2
             in if faulted sc then handleSendMessage_catch (nowError sc) sessionId st3 else st3)
      in st'\<lparr>isLoading := False\<rparr>)"

text \<open>Lines 78 to 152, the whole call.\<close>

definition handleSendMessage :: "Script \<Rightarrow> string \<Rightarrow> File list \<Rightarrow> App \<Rightarrow> App" where
  "handleSendMessage sc text' files st =
     (case handleSendMessage_begin (nowSession sc) (isoCreated sc) text' files st of
        None \<Rightarrow> st
      | Some (sessionId, st1) \<Rightarrow>
          let st2 = fold ui_step (duringFiles sc) st1;
              st3 = handleSendMessage_user (nowUser sc) (view st) sessionId text' files st2
          in handleSendMessage_try sc sessionId st3)"

text \<open>The fragments among the items of a stream, in order.\<close>

fun fragments :: "stream_item list \<Rightarrow> string list" where
  "fragments [] = []"
| "fragments (Fragment chunk # rest) = chunk # fragments rest"
| "fragments (Meanwhile e # rest) = fragments rest"

section \<open>The mutations of the session list\<close>

text \<open>
  Every \<open>setSessions\<close> call of \<open>handleSendMessage\<close>, with the values it depends on:
  session creation (line 97), the user message (line 119), the placeholder (line 137),
  one fragment fold (line 141) and the error message (line 148). Any interleaving of
  calls changes the list by a sequence of these.
\<close>

datatype mutation =
    CreateSession nat string string
  | AppendUser string nat string "Attachment list"
  | AppendPlaceholder string nat
  | FoldFragment string nat string
  | AppendError string nat

fun mutate :: "mutation \<Rightarrow> ChatSession list \<Rightarrow> ChatSession list" where
  "mutate (CreateSession now text' createdAt) prev =
     prependSession (newSession (sessionIdAt now) text' createdAt) prev"
| "mutate (AppendUser sessionId now text' attachments) prev =
     appendMessage sessionId (userMessage now text' attachments) prev"
| "mutate (AppendPlaceholder sessionId now) prev =
     appendMessage sessionId (modelMessage (modelMessageIdAt now)) prev"
| "mutate (FoldFragment sessionId now modelResponse) prev =
     foldResponse sessionId (modelMessageIdAt now) modelResponse prev"
| "mutate (AppendError sessionId now) prev =
     appendMessage sessionId (errorMsg now) prev"

text \<open>The session and clock reading at which a mutation mints an id of each kind.\<close>

fun userMints :: "mutation list \<Rightarrow> (string \<times> nat) list" where
  "userMints [] = []"
| "userMints (AppendUser sessionId now text' attachments # ms) = (sessionId, now) # userMints ms"
| "userMints (m # ms) = userMints ms"

fun placeholderMints :: "mutation list \<Rightarrow> (string \<times> nat) list" where
  "placeholderMints [] = []"
| "placeholderMints (AppendPlaceholder sessionId now # ms) = (sessionId, now) # placeholderMints ms"
| "placeholderMints (m # ms) = placeholderMints ms"

fun errorMints :: "mutation list \<Rightarrow> (string \<times> nat) list" where
  "errorMints [] = []"
| "errorMints (AppendError sessionId now # ms) = (sessionId, now) # errorMints ms"
| "errorMints (m # ms) = errorMints ms"

section \<open>Durable storage\<close>

text \<open>
  The values \<open>JSON.stringify\<close> writes and \<open>JSON.parse\<close> returns. Numbers do not occur
  in session data; the integers stand for them.
\<close>

datatype json =
    JNull
  | JBool bool
  | JNumber int
  | JString string
  | JArray "json list"
  | JObject "(string \<times> json) list"

text \<open>
  \<open>JSON.stringify(sessions)\<close> (line 41) on values of the interfaces of types.ts:
  properties in creation order, an undefined \<open>attachments\<close> left out.
\<close>

definition roleJson :: "ChatRole \<Rightarrow> json" where
  "roleJson r = JString (case r of User \<Rightarrow> ''user'' | Model \<Rightarrow> ''model'')"

definition attachmentJson :: "Attachment \<Rightarrow> json" where
  "attachmentJson a =
     JObject [(''name'', JString (a_name a)), (''type'', JString (a_type a)),
              (''url'', JString (a_url a)), (''data'', JString (a_data a))]"

definition messageJson :: "ChatMessage \<Rightarrow> json" where
  "messageJson m =
     JObject ([(''id'', JString (m_id m)), (''role'', roleJson (m_role m)),
               (''text'', JString (m_text m))] @
              (case m_attachments m of
                 None \<Rightarrow> []
               | Some attachments \<Rightarrow> [(''attachments'', JArray (map attachmentJson attachments))]))"

definition sessionJson :: "ChatSession \<Rightarrow> json" where
  "sessionJson s =
     JObject [(''id'', JString (s_id s)), (''title'', JString (s_title s)),
              (''messages'', JArray (map messageJson (s_messages s))),
              (''createdAt'', JString (s_createdAt s))]"

definition sessionsJson :: "ChatSession list \<Rightarrow> json" where
  "sessionsJson ss = JArray (map sessionJson ss)"

text \<open>
  Reading a parsed value at the type \<open>ChatSession[]\<close>, which line 30 does without a
  check; \<open>None\<close> when the value is not of that shape.
\<close>

definition property :: "string \<Rightarrow> json \<Rightarrow> json option" where
  "property key v = (case v of JObject kvs \<Rightarrow> map_of kvs key | _ \<Rightarrow> None)"

definition asString :: "json \<Rightarrow> string option" where
  "asString v = (case v of JString s \<Rightarrow> Some s | _ \<Rightarrow> None)"

definition asRole :: "json \<Rightarrow> ChatRole option" where
  "asRole v =
     (case v of
        JString s \<Rightarrow> if s = ''user'' then Some User else if s = ''model'' then Some Model else None
      | _ \<Rightarrow> None)"

definition asArray :: "(json \<Rightarrow> 'a option) \<Rightarrow> json \<Rightarrow> 'a list option" where
  "asArray element v = (case v of JArray vs \<Rightarrow> those (map element vs) | _ \<Rightarrow> None)"

definition asAttachment :: "json \<Rightarrow> Attachment option" where
  "asAttachment v =
     do {
       n \<leftarrow> Option.bind (property ''name'' v) asString;
       t \<leftarrow> Option.bind (property ''type'' v) asString;
       u \<leftarrow> Option.bind (property ''url'' v) asString;
       d \<leftarrow> Option.bind (property ''data'' v) asString;
       Some \<lparr>a_name = n, a_type = t, a_url = u, a_data = d\<rparr>
     }"

definition asMessage :: "json \<Rightarrow> ChatMessage option" where
  "asMessage v =
     do {
       i \<leftarrow> Option.bind (property ''id'' v) asString;
       r \<leftarrow> Option.bind (property ''role'' v) asRole;
       t \<leftarrow> Option.bind (property ''text'' v) asString;
       a \<leftarrow> (case property ''attachments'' v of
               None \<Rightarrow> Some None
             | Some w \<Rightarrow> map_option Some (asArray asAttachment w));
       Some \<lparr>m_id = i, m_role = r, m_text = t, m_attachments = a\<rparr>
     }"

definition asSession :: "json \<Rightarrow> ChatSession option" where
  "asSession v =
     do {
       i \<leftarrow> Option.bind (property ''id'' v) asString;
       t \<leftarrow> Option.bind (property ''title'' v) asString;
       ms \<leftarrow> Option.bind (property ''messages'' v) (asArray asMessage);
       c \<leftarrow> Option.bind (property ''createdAt'' v) asString;
       Some \<lparr>s_id = i, s_title = t, s_messages = ms, s_createdAt = c\<rparr>
     }"

definition asSessions :: "json \<Rightarrow> ChatSession list option" where
  "asSessions v = asArray asSession v"

text \<open>
  The string kept under the key \<open>chatSessions\<close>, by what \<open>JSON.parse\<close> does with it:
  the text of a JSON value, which parses to this value, or any other string, on which
  \<open>JSON.parse\<close> throws a SyntaxError. \<open>JSON.stringify\<close> of a value is its text.
\<close>

datatype item = JsonText json | NotJson string

datatype exn = SecurityError | QuotaExceededError | SyntaxError

text \<open>
  The browser's storage: the item under the key, whether access is refused
  (\<open>getItem\<close> and \<open>setItem\<close> throw) and whether the quota is used up (\<open>setItem\<close> throws).
\<close>

record localStorage =
  chatSessions :: "item option"
  blocked :: bool
  full :: bool

definition getItem :: "localStorage \<Rightarrow> exn + item option" where
  "getItem ls = (if blocked ls then Inl SecurityError else Inr (chatSessions ls))"

definition setItem :: "item \<Rightarrow> localStorage \<Rightarrow> exn + localStorage" where
  "setItem v ls =
     (if blocked ls then Inl SecurityError
      else if full ls then Inl QuotaExceededError
      else Inr (ls\<lparr>chatSessions := Some v\<rparr>))"

definition JSON_parse :: "item \<Rightarrow> exn + json" where
  "JSON_parse saved = (case saved of JsonText v \<Rightarrow> Inr v | NotJson s \<Rightarrow> Inl SyntaxError)"

definition JSON_stringify :: "ChatSession list \<Rightarrow> item" where
  "JSON_stringify ss = JsonText (sessionsJson ss)"

text \<open>A string is truthy unless it is empty; the text of a JSON value is never empty.\<close>

definition truthy :: "item \<Rightarrow> bool" where
  "truthy saved = (case saved of JsonText v \<Rightarrow> True | NotJson s \<Rightarrow> s \<noteq> [])"

text \<open>
  The load effect, lines 26 to 36: the value \<open>setSessions\<close> is called with, \<open>None\<close>
  when it is not called. The \<open>catch\<close> block passes the empty array.
\<close>

definition loadEffect :: "localStorage \<Rightarrow> json option" where
  "loadEffect ls =
     (case getItem ls of
        Inl e \<Rightarrow> Some (JArray [])
      | Inr None \<Rightarrow> None
      | Inr (Some savedSessions) \<Rightarrow>
          if truthy savedSessions
          then (case JSON_parse savedSessions of
                  Inl e \<Rightarrow> Some (JArray [])
                | Inr v \<Rightarrow> Some v)
          else None)"

text \<open>
  The session list the component holds after the load effect, starting from the empty
  list of line 16; \<open>None\<close> when the state then holds a value that is no session list.
\<close>

definition loadedSessions :: "localStorage \<Rightarrow> ChatSession list option" where
  "loadedSessions ls = (case loadEffect ls of None \<Rightarrow> Some [] | Some v \<Rightarrow> asSessions v)"

text \<open>The save effect, lines 39 to 45: a failed write is logged and dropped.\<close>

definition saveEffect :: "ChatSession list \<Rightarrow> localStorage \<Rightarrow> localStorage" where
  "saveEffect ss ls =
     (case setItem (JSON_stringify ss) ls of Inl e \<Rightarrow> ls | Inr ls' \<Rightarrow> ls')"

section \<open>Example runs\<close>

text \<open>The component once mounted, with the first \<open>initializeChat\<close> settled.\<close>

definition mountedApp :: App where
  "mountedApp = ui_step (ChatSettled (Some (Handle 0))) (ui_step InitializeChat initialApp)"

text \<open>A send in which every clock reading falls into millisecond 5.\<close>

definition helloScript :: Script where
  "helloScript =
     \<lparr>nowSession = 5, isoCreated = ''2024-05-01T10:00:00.000Z'', duringFiles = [], nowUser = 5,
      duringOpen = [], opened = True, nowModel = 5,
      stream = [Fragment ''Hel'', Fragment ''lo''], faulted = False, nowError = 5\<rparr>"

text \<open>The state in which the \<open>try\<close> block of the first send starts.\<close>

definition askedApp :: App where
  "askedApp =
     (case handleSendMessage_begin 5 ''2024-05-01T10:00:00.000Z'' ''Hi'' [] mountedApp of
        None \<Rightarrow> mountedApp
      | Some (sessionId, st) \<Rightarrow> handleSendMessage_user 5 Main sessionId ''Hi'' [] st)"

text \<open>A stream that throws after its two fragments.\<close>

definition faultScript :: Script where
  "faultScript = helloScript\<lparr>nowModel := 7, faulted := True, nowError := 9\<rparr>"

text \<open>The user presses "new chat" after the first question; the new handle arrives.\<close>

definition freshApp :: App where
  "freshApp = ui_step (ChatSettled (Some (Handle 1))) (ui_step StartNewChat askedApp)"

text \<open>
  A send during which the user goes back to the first session, once before the stream
  opens and once between its two fragments.
\<close>

definition switchScript :: Script where
  "switchScript =
     \<lparr>nowSession = 8, isoCreated = ''2024-05-01T10:00:01.000Z'', duringFiles = [], nowUser = 8,
      duringOpen = [ShowHistory, LoadChat ''session-5'', ChatSettled (Some (Handle 2))],
      opened = True, nowModel = 9,
      stream = [Fragment ''a'', Meanwhile StartNewChat, Meanwhile ShowHistory,
                Meanwhile (LoadChat ''session-5''), Fragment ''b''],
      faulted = False, nowError = 9\<rparr>"

text \<open>A send with no text and one attached file.\<close>

definition photo :: File where
  "photo = \<lparr>f_name = ''cat.png'', f_type = ''image/png'', f_url = ''blob:1'', f_data = ''iVBORw0KGgo=''\<rparr>"

text \<open>
  The mutations of two sends into one session: the first mints its user message and its
  placeholder in millisecond 5, the second in millisecond 6, where its stream fails.
\<close>

definition exampleMutations :: "mutation list" where
  "exampleMutations =
     [CreateSession 5 ''Hi'' ''2024-05-01T10:00:00.000Z'',
      AppendUser ''session-5'' 5 ''Hi'' [],
      AppendPlaceholder ''session-5'' 5,
      FoldFragment ''session-5'' 5 ''Hel'',
      FoldFragment ''session-5'' 5 ''Hello'',
      AppendUser ''session-5'' 6 ''Again'' [],
      AppendPlaceholder ''session-5'' 6,
      AppendError ''session-5'' 6]"

text \<open>The first send ends with a rejected \<open>sendMessageStream\<close>, in millisecond 9.\<close>

definition failedApp :: App where
  "failedApp =
     handleSendMessage_try (helloScript\<lparr>opened := False, nowError := 9\<rparr>) ''session-5'' askedApp"

text \<open>
  The user asks again within the same millisecond; this is the state in which the
  \<open>try\<close> block of the second send starts.
\<close>

definition retryApp :: App where
  "retryApp =
     (case handleSendMessage_begin 9 ''2024-05-01T10:00:00.009Z'' ''Again'' [] failedApp of
        None \<Rightarrow> failedApp
      | Some (sessionId, st) \<Rightarrow>
          handleSendMessage_user 9 (view failedApp) sessionId ''Again'' [] st)"

text \<open>The second send streams two fragments and then throws, still in millisecond 9.\<close>

definition retryScript :: Script where
  "retryScript =
     helloScript\<lparr>nowSession := 9, nowUser := 9, nowModel := 9, faulted := True, nowError := 9\<rparr>"

text \<open>
  The send of \<open>switchScript\<close>, but started in millisecond 5, in which the session of the
  first question was created.
\<close>

definition collideScript :: Script where
  "collideScript = switchScript\<lparr>nowSession := 5\<rparr>"

section \<open>The invariant of the message ids\<close>

text \<open>
  An id is minted for a session by a list of mutations when one of them appended a
  message under this id to the sessions of that id.
\<close>

definition minted :: "mutation list \<Rightarrow> string \<Rightarrow> string \<Rightarrow> bool" where
  "minted ms sessionId i \<longleftrightarrow>
     (\<exists>t. i = userMessageIdAt t \<and> (sessionId, t) \<in> set (userMints ms)) \<or>
     (\<exists>t. i = modelMessageIdAt t \<and> (sessionId, t) \<in> set (placeholderMints ms)) \<or>
     (\<exists>t. i = errorMessageIdAt t \<and> (sessionId, t) \<in> set (errorMints ms))"

text \<open>
  Two session lists that agree record by record, except for the messages of the records
  with the given id.
\<close>

definition touchesOnly :: "string \<Rightarrow> ChatSession list \<Rightarrow> ChatSession list \<Rightarrow> bool" where
  "touchesOnly sessionId ss ss' =
     list_all2 (\<lambda>s s'. s_id s' = s_id s \<and> s_title s' = s_title s \<and>
                  s_createdAt s' = s_createdAt s \<and> (s_id s \<noteq> sessionId \<longrightarrow> s' = s)) ss ss'"

text \<open>Where a message id comes from: its kind and the clock reading it was minted at.\<close>

datatype origin = UserAt nat | PlaceholderAt nat | ErrorAt nat

fun idOf :: "origin \<Rightarrow> string" where
  "idOf (UserAt now) = userMessageIdAt now"
| "idOf (PlaceholderAt now) = modelMessageIdAt now"
| "idOf (ErrorAt now) = errorMessageIdAt now"

definition wellMinted :: "mutation list \<Rightarrow> ChatSession list \<Rightarrow> bool" where
  "wellMinted ms ss \<longleftrightarrow>
     (\<forall>s\<in>set ss. distinct (map m_id (s_messages s)) \<and>
        (\<forall>m\<in>set (s_messages s). minted ms (s_id s) (m_id m)))"

section \<open>Facts about decimal numerals\<close>

lemma digit_code: "d < 10 \<Longrightarrow> (of_char (digit d) :: nat) = 48 + d"
proof -
  assume "d < 10"
  then have "d \<in> {0, 1, 2, 3, 4, 5, 6, 7, 8, 9}" by auto
  then show ?thesis by (auto simp: digit_def)
qed

lemma digit_inj: "d < 10 \<Longrightarrow> e < 10 \<Longrightarrow> digit d = digit e \<Longrightarrow> d = e"
proof -
  assume d: "d < 10" and e: "e < 10" and eq: "digit d = digit e"
  from eq have "(of_char (digit d) :: nat) = of_char (digit e)" by simp
  with d e show "d = e" by (simp add: digit_code)
qed

lemma decimal_not_Nil: "decimal n \<noteq> []"
  by (subst decimal.simps) simp

lemma decimal_codes: "c \<in> set (decimal n) \<Longrightarrow> 48 \<le> (of_char c :: nat) \<and> (of_char c :: nat) < 58"
proof (induction n rule: decimal.induct)
  case (1 n)
  show ?case
  proof (cases "n < 10")
    case True
    with "1.prems" have "c = digit n" by (subst (asm) decimal.simps) simp
    with True show ?thesis by (simp add: digit_code)
  next
    case False
    with "1.prems" have "c \<in> set (decimal (n div 10)) \<or> c = digit (n mod 10)"
      by (subst (asm) decimal.simps) auto
    then show ?thesis
    proof
      assume "c \<in> set (decimal (n div 10))"
      with "1.IH" False show ?thesis by simp
    next
      assume "c = digit (n mod 10)"
      then show ?thesis by (simp add: digit_code)
    qed
  qed
qed

lemma decimal_inj: "decimal m = decimal n \<Longrightarrow> m = n"
proof (induction m arbitrary: n rule: decimal.induct)
  case (1 m)
  show ?case
  proof (cases "m < 10")
    case m: True
    show ?thesis
    proof (cases "n < 10")
      case True
      with m "1.prems" have "digit m = digit n"
        by (simp add: decimal.simps [of m] decimal.simps [of n])
      with m True show ?thesis by (rule digit_inj)
    next
      case False
      with m "1.prems" have "[digit m] = decimal (n div 10) @ [digit (n mod 10)]"
        by (simp add: decimal.simps [of m] decimal.simps [of n])
      then have "decimal (n div 10) = []" by simp
      then show ?thesis by (simp add: decimal_not_Nil)
    qed
  next
    case m: False
    show ?thesis
    proof (cases "n < 10")
      case True
      with m "1.prems" have "decimal (m div 10) @ [digit (m mod 10)] = [digit n]"
        by (simp add: decimal.simps [of m] decimal.simps [of n])
      then have "decimal (m div 10) = []" by simp
      then show ?thesis by (simp add: decimal_not_Nil)
    next
      case False
      with m "1.prems"
      have "decimal (m div 10) @ [digit (m mod 10)] = decimal (n div 10) @ [digit (n mod 10)]"
        by (simp add: decimal.simps [of m] decimal.simps [of n])
      then have q: "decimal (m div 10) = decimal (n div 10)"
        and r: "digit (m mod 10) = digit (n mod 10)" by simp_all
      from "1.IH" [OF m q] have "m div 10 = n div 10" .
      moreover from r have "m mod 10 = n mod 10" by (simp add: digit_inj)
      ultimately show ?thesis by (metis div_mult_mod_eq)
    qed
  qed
qed

lemma decimal_no_char: "(of_char c :: nat) < 48 \<or> 58 \<le> (of_char c :: nat) \<Longrightarrow> c \<notin> set (decimal n)"
  using decimal_codes [of c n] by auto

lemma sessionIdAt_inj: "sessionIdAt a = sessionIdAt b \<Longrightarrow> a = b"
  by (simp add: sessionIdAt_def decimal_inj)

lemma userMessageIdAt_inj: "userMessageIdAt a = userMessageIdAt b \<Longrightarrow> a = b"
  by (simp add: userMessageIdAt_def decimal_inj)

lemma modelMessageIdAt_inj: "modelMessageIdAt a = modelMessageIdAt b \<Longrightarrow> a = b"
  by (simp add: modelMessageIdAt_def decimal_inj)

lemma errorMessageIdAt_inj: "errorMessageIdAt a = errorMessageIdAt b \<Longrightarrow> a = b"
  by (simp add: errorMessageIdAt_def decimal_inj)

lemma user_model_ids_differ: "userMessageIdAt a \<noteq> modelMessageIdAt b"
proof
  assume "userMessageIdAt a = modelMessageIdAt b"
  then have "decimal a = decimal b @ ''-model''"
    by (simp add: userMessageIdAt_def modelMessageIdAt_def)
  then have "CHR ''m'' \<in> set (decimal a)" by simp
  moreover have "CHR ''m'' \<notin> set (decimal a)" by (rule decimal_no_char) simp
  ultimately show False by simp
qed

lemma error_user_ids_differ: "errorMessageIdAt a \<noteq> userMessageIdAt b"
  by (simp add: errorMessageIdAt_def userMessageIdAt_def)

lemma error_model_ids_differ: "errorMessageIdAt a \<noteq> modelMessageIdAt b"
  by (simp add: errorMessageIdAt_def modelMessageIdAt_def)

section \<open>Facts about the store updates\<close>

lemma sessions_ui_step: "sessions (ui_step e st) = sessions st"
  by (cases e) (simp_all add: loadChat_def startNewChat_def initializeChat_begin_def
      initializeChat_settle_def split: option.split)

lemma sessions_fold_ui_step: "sessions (fold ui_step es st) = sessions st"
  by (induction es arbitrary: st) (simp_all add: sessions_ui_step)

lemma find_map_same_id:
  "(\<And>s. s_id (f s) = s_id s) \<Longrightarrow>
   find (\<lambda>s. s_id s = x) (map f ss) = map_option f (find (\<lambda>s. s_id s = x) ss)"
  by (induction ss) simp_all

lemma findSession_appendMessage:
  "findSession x (appendMessage sessionId message ss) =
   map_option (\<lambda>s. if s_id s = sessionId then s\<lparr>s_messages := s_messages s @ [message]\<rparr> else s)
     (findSession x ss)"
  unfolding findSession_def appendMessage_def by (rule find_map_same_id) simp

lemma findSession_foldResponse:
  "findSession x (foldResponse sessionId modelMessageId modelResponse ss) =
   map_option (\<lambda>s. if s_id s = sessionId
       then s\<lparr>s_messages := map (\<lambda>m. if m_id m = modelMessageId then m\<lparr>m_text := modelResponse\<rparr> else m)
                        (s_messages s)\<rparr>
       else s) (findSession x ss)"
  unfolding findSession_def foldResponse_def by (rule find_map_same_id) simp

lemma findSession_Some_id: "findSession x ss = Some s \<Longrightarrow> s_id s = x"
  unfolding findSession_def by (induction ss) (auto split: if_splits)

lemma messagesOf_appendMessage:
  "messagesOf x (appendMessage sessionId message ss) =
   (if x = sessionId \<and> findSession x ss \<noteq> None then messagesOf x ss @ [message]
    else messagesOf x ss)"
  by (cases "findSession x ss")
     (auto simp: messagesOf_def findSession_appendMessage dest: findSession_Some_id)

lemma messagesOf_foldResponse:
  "messagesOf x (foldResponse sessionId modelMessageId modelResponse ss) =
   (if x = sessionId
    then map (\<lambda>m. if m_id m = modelMessageId then m\<lparr>m_text := modelResponse\<rparr> else m) (messagesOf x ss)
    else messagesOf x ss)"
  by (cases "findSession x ss")
     (auto simp: messagesOf_def findSession_foldResponse dest: findSession_Some_id)

lemma foldResponse_twice:
  "foldResponse sessionId modelMessageId r2 (foldResponse sessionId modelMessageId r1 ss) =
   foldResponse sessionId modelMessageId r2 ss"
  by (simp add: foldResponse_def comp_def)

lemma consume_sessions:
  "sessions (consume sessionId modelMessageId r items st) =
   (if fragments items = [] then sessions st
    else foldResponse sessionId modelMessageId (r @ concat (fragments items)) (sessions st))"
proof (induction items arbitrary: r st)
  case Nil
  show ?case by simp
next
  case (Cons item items)
  show ?case
  proof (cases item)
    case (Fragment chunk)
    then show ?thesis by (simp add: Let_def Cons.IH foldResponse_twice)
  next
    case (Meanwhile e)
    then show ?thesis by (simp add: Cons.IH sessions_ui_step)
  qed
qed

lemma trim_empty_iff: "trim s = [] \<longleftrightarrow> (\<forall>c\<in>set s. isWhiteSpace c)"
proof
  assume "trim s = []"
  then have all: "\<forall>x\<in>set (dropWhile isWhiteSpace s). isWhiteSpace x"
    by (simp add: trim_def dropWhile_eq_Nil_conv)
  have "dropWhile isWhiteSpace s = []"
  proof (rule ccontr)
    assume ne: "dropWhile isWhiteSpace s \<noteq> []"
    then have "\<not> isWhiteSpace (hd (dropWhile isWhiteSpace s))" by (rule hd_dropWhile)
    moreover from ne have "hd (dropWhile isWhiteSpace s) \<in> set (dropWhile isWhiteSpace s)" by simp
    ultimately show False using all by blast
  qed
  then show "\<forall>c\<in>set s. isWhiteSpace c" by (simp add: dropWhile_eq_Nil_conv)
next
  assume "\<forall>c\<in>set s. isWhiteSpace c"
  then have d: "dropWhile isWhiteSpace s = []" by (simp add: dropWhile_eq_Nil_conv)
  show "trim s = []" by (simp only: trim_def d rev.simps dropWhile.simps)
qed

lemma sessions_catch:
  "sessions (handleSendMessage_catch now sessionId st) = appendMessage sessionId (errorMsg now) (sessions st)"
  by (simp add: handleSendMessage_catch_def)

lemma sessions_placeholder:
  "sessions (handleSendMessage_placeholder sessionId modelMessageId st) =
   appendMessage sessionId (modelMessage modelMessageId) (sessions st)"
  by (simp add: handleSendMessage_placeholder_def)

lemma sessions_user:
  "sessions (handleSendMessage_user now view0 sessionId text' files st) =
   appendMessage sessionId (userMessage now text' (map toAttachment files)) (sessions st)"
  by (simp add: handleSendMessage_user_def Let_def)

lemma sessions_try:
  "sessions (handleSendMessage_try sc sessionId st) =
   (if chatRef st = None \<or> \<not> opened sc
    then appendMessage sessionId (errorMsg (nowError sc)) (sessions st)
    else let streamed =
               sessions (consume sessionId (modelMessageIdAt (nowModel sc)) [] (stream sc)
                 (handleSendMessage_placeholder sessionId (modelMessageIdAt (nowModel sc))
                   (fold ui_step (duringOpen sc) st)))
         in if faulted sc then appendMessage sessionId (errorMsg (nowError sc)) streamed
            else streamed)"
  by (simp add: handleSendMessage_try_def Let_def sessions_catch sessions_fold_ui_step)





lemma begin_cases:
  assumes "handleSendMessage_begin now createdAt text' files st = Some (sessionId, st1)"
  shows "currentSessionId st1 = Some sessionId \<and>
         ((currentSessionId st = Some sessionId \<and> sessionId \<noteq> [] \<and> sessions st1 = sessions st) \<or>
          ((currentSessionId st = None \<or> currentSessionId st = Some []) \<and>
           sessionId = sessionIdAt now \<and>
           sessions st1 = newSession sessionId text' createdAt # sessions st))"
  using assms
  by (auto simp: handleSendMessage_begin_def Let_def prependSession_def
      split: if_splits option.splits)


section \<open>A send as a sequence of mutations\<close>

lemma consume_as_mutations:
  "\<exists>ms. sessions (consume sessionId (modelMessageIdAt t) r items st) = fold mutate ms (sessions st)"
proof (induction items arbitrary: r st)
  case Nil
  have "sessions (consume sessionId (modelMessageIdAt t) r [] st) = fold mutate [] (sessions st)"
    by simp
  then show ?case by blast
next
  case (Cons item items)
  show ?case
  proof (cases item)
    case (Fragment chunk)
    let ?st = "st\<lparr>sessions := foldResponse sessionId (modelMessageIdAt t) (r @ chunk) (sessions st)\<rparr>"
    from Cons.IH [of "r @ chunk" ?st] obtain ms
      where "sessions (consume sessionId (modelMessageIdAt t) (r @ chunk) items ?st) =
             fold mutate ms (sessions ?st)" by blast
    with Fragment
    have "sessions (consume sessionId (modelMessageIdAt t) r (item # items) st) =
          fold mutate (FoldFragment sessionId t (r @ chunk) # ms) (sessions st)"
      by (simp add: Let_def)
    then show ?thesis by blast
  next
    case (Meanwhile e)
    from Cons.IH [of r "ui_step e st"] obtain ms
      where "sessions (consume sessionId (modelMessageIdAt t) r items (ui_step e st)) =
             fold mutate ms (sessions (ui_step e st))" by blast
    with Meanwhile
    have "sessions (consume sessionId (modelMessageIdAt t) r (item # items) st) =
          fold mutate ms (sessions st)"
      by (simp add: sessions_ui_step)
    then show ?thesis by blast
  qed
qed

lemma try_as_mutations:
  "\<exists>ms. sessions (handleSendMessage_try sc sessionId st) = fold mutate ms (sessions st)"
proof (cases "chatRef st = None \<or> \<not> opened sc")
  case True
  then have "sessions (handleSendMessage_try sc sessionId st) =
      fold mutate [AppendError sessionId (nowError sc)] (sessions st)"
    by (simp add: sessions_try)
  then show ?thesis by blast
next
  case False
  let ?st = "handleSendMessage_placeholder sessionId (modelMessageIdAt (nowModel sc))
                   (fold ui_step (duringOpen sc) st)"
  from consume_as_mutations [of sessionId "nowModel sc" "[]" "stream sc" ?st] obtain ms
    where ms: "sessions (consume sessionId (modelMessageIdAt (nowModel sc)) [] (stream sc) ?st) =
       fold mutate ms (sessions ?st)" by blast
  have st: "sessions ?st = fold mutate [AppendPlaceholder sessionId (nowModel sc)] (sessions st)"
    by (simp add: sessions_placeholder sessions_fold_ui_step)
  show ?thesis
  proof (cases "faulted sc")
    case True
    with False ms st have "sessions (handleSendMessage_try sc sessionId st) =
      fold mutate (AppendPlaceholder sessionId (nowModel sc) # ms @ [AppendError sessionId (nowError sc)])
        (sessions st)"
      by (auto simp: sessions_try Let_def)
    then show ?thesis by blast
  next
    case no: False
    with False ms st have "sessions (handleSendMessage_try sc sessionId st) =
      fold mutate (AppendPlaceholder sessionId (nowModel sc) # ms) (sessions st)"
      by (auto simp: sessions_try Let_def)
    then show ?thesis by blast
  qed
qed

lemma handleSendMessage_as_mutations:
  "\<exists>ms. sessions (handleSendMessage sc text' files st) = fold mutate ms (sessions st)"
proof (cases "handleSendMessage_begin (nowSession sc) (isoCreated sc) text' files st")
  case None
  then have "sessions (handleSendMessage sc text' files st) = fold mutate [] (sessions st)"
    by (simp add: handleSendMessage_def)
  then show ?thesis by blast
next
  case (Some p)
  obtain sessionId st1 where p: "p = (sessionId, st1)" by (cases p)
  with Some have b: "handleSendMessage_begin (nowSession sc) (isoCreated sc) text' files st =
      Some (sessionId, st1)" by simp
  let ?st3 = "handleSendMessage_user (nowUser sc) (view st) sessionId text' files
      (fold ui_step (duringFiles sc) st1)"
  from try_as_mutations [of sc sessionId ?st3] obtain ms
    where ms: "sessions (handleSendMessage_try sc sessionId ?st3) = fold mutate ms (sessions ?st3)"
    by blast
  have st3: "sessions ?st3 =
      fold mutate [AppendUser sessionId (nowUser sc) text' (map toAttachment files)] (sessions st1)"
    by (simp add: sessions_user sessions_fold_ui_step)
  from begin_cases [OF b]
  have "sessions st1 = sessions st \<or>
        sessions st1 = fold mutate [CreateSession (nowSession sc) text' (isoCreated sc)] (sessions st)"
    by (auto simp: prependSession_def)
  then show ?thesis
  proof
    assume "sessions st1 = sessions st"
    with b ms st3 have "sessions (handleSendMessage sc text' files st) =
        fold mutate (AppendUser sessionId (nowUser sc) text' (map toAttachment files) # ms) (sessions st)"
      by (simp add: handleSendMessage_def Let_def)
    then show ?thesis by blast
  next
    assume "sessions st1 = fold mutate [CreateSession (nowSession sc) text' (isoCreated sc)] (sessions st)"
    with b ms st3 have "sessions (handleSendMessage sc text' files st) =
        fold mutate (CreateSession (nowSession sc) text' (isoCreated sc) #
          AppendUser sessionId (nowUser sc) text' (map toAttachment files) # ms) (sessions st)"
      by (simp add: handleSendMessage_def Let_def)
    then show ?thesis by blast
  qed
qed

section \<open>Titles\<close>

lemma titles_mutate: "\<exists>new. map s_title (mutate m ss) = new @ map s_title ss"
proof (cases m)
  case (CreateSession now text' createdAt)
  then have "map s_title (mutate m ss) =
      [s_title (newSession (sessionIdAt now) text' createdAt)] @ map s_title ss"
    by (simp add: prependSession_def)
  then show ?thesis by blast
next
  case (AppendUser sessionId now text' attachments)
  then have "map s_title (mutate m ss) = [] @ map s_title ss"
    by (simp add: appendMessage_def comp_def)
  then show ?thesis by blast
next
  case (AppendPlaceholder sessionId now)
  then have "map s_title (mutate m ss) = [] @ map s_title ss"
    by (simp add: appendMessage_def comp_def)
  then show ?thesis by blast
next
  case (FoldFragment sessionId now modelResponse)
  then have "map s_title (mutate m ss) = [] @ map s_title ss"
    by (simp add: foldResponse_def comp_def)
  then show ?thesis by blast
next
  case (AppendError sessionId now)
  then have "map s_title (mutate m ss) = [] @ map s_title ss"
    by (simp add: appendMessage_def comp_def)
  then show ?thesis by blast
qed

lemma titles_fold_mutate: "\<exists>new. map s_title (fold mutate ms ss) = new @ map s_title ss"
proof (induction ms arbitrary: ss)
  case Nil
  show ?case by simp
next
  case (Cons m ms)
  from titles_mutate obtain a where a: "map s_title (mutate m ss) = a @ map s_title ss" by blast
  from Cons.IH obtain b where "map s_title (fold mutate ms (mutate m ss)) = b @ map s_title (mutate m ss)"
    by blast
  with a have "map s_title (fold mutate (m # ms) ss) = (b @ a) @ map s_title ss" by simp
  then show ?case by blast
qed

lemma title_value: "s_title (newSession sessionId text' createdAt) = (if text' = [] then ''New Chat'' else take 40 text')"
  by (simp add: newSession_def Let_def)

section \<open>Message ids stay distinct\<close>

lemma userMints_append: "userMints (a @ b) = userMints a @ userMints b"
  by (induction a rule: userMints.induct) simp_all

lemma placeholderMints_append: "placeholderMints (a @ b) = placeholderMints a @ placeholderMints b"
  by (induction a rule: placeholderMints.induct) simp_all

lemma errorMints_append: "errorMints (a @ b) = errorMints a @ errorMints b"
  by (induction a rule: errorMints.induct) simp_all

lemma minted_mono: "minted ms x i \<Longrightarrow> minted (ms @ [m]) x i"
  by (auto simp: minted_def userMints_append placeholderMints_append errorMints_append)

lemma wellMinted_append_message:
  assumes inv: "wellMinted ms ss"
    and new: "minted (ms @ [m]) sessionId (m_id message)"
    and fresh: "\<And>i. minted ms sessionId i \<Longrightarrow> i \<noteq> m_id message"
  shows "wellMinted (ms @ [m]) (appendMessage sessionId message ss)"
  unfolding wellMinted_def appendMessage_def
proof (intro ballI conjI)
  fix s' assume "s' \<in> set (map (\<lambda>s. if s_id s = sessionId then s\<lparr>s_messages := s_messages s @ [message]\<rparr> else s) ss)"
  then obtain s where s: "s \<in> set ss"
    and s': "s' = (if s_id s = sessionId then s\<lparr>s_messages := s_messages s @ [message]\<rparr> else s)"
    by auto
  from inv s have d: "distinct (map m_id (s_messages s))"
    and mi: "\<And>x. x \<in> set (s_messages s) \<Longrightarrow> minted ms (s_id s) (m_id x)"
    by (auto simp: wellMinted_def)
  show "distinct (map m_id (s_messages s'))"
  proof (cases "s_id s = sessionId")
    case True
    have "m_id message \<notin> m_id ` set (s_messages s)"
    proof
      assume "m_id message \<in> m_id ` set (s_messages s)"
      then obtain x where "x \<in> set (s_messages s)" and "m_id x = m_id message" by auto
      with mi [of x] fresh [of "m_id x"] True show False by simp
    qed
    with d s' True show ?thesis by simp
  next
    case False
    with d s' show ?thesis by simp
  qed
  fix x assume x: "x \<in> set (s_messages s')"
  show "minted (ms @ [m]) (s_id s') (m_id x)"
  proof (cases "s_id s = sessionId")
    case True
    with s' x have "x \<in> set (s_messages s) \<or> x = message" by auto
    then show ?thesis
    proof
      assume "x \<in> set (s_messages s)"
      from mi [OF this] s' True show ?thesis by (simp add: minted_mono)
    next
      assume "x = message"
      with new s' True show ?thesis by simp
    qed
  next
    case False
    with s' x mi [of x] show ?thesis by (simp add: minted_mono)
  qed
qed

lemma wellMinted_foldResponse:
  assumes inv: "wellMinted ms ss"
  shows "wellMinted (ms @ [m]) (foldResponse sessionId modelMessageId r ss)"
  using inv
  by (auto simp: wellMinted_def foldResponse_def comp_def if_distrib [of m_id] minted_mono
      cong: if_cong)

lemma wellMinted_prepend:
  assumes inv: "wellMinted ms ss"
  shows "wellMinted (ms @ [m]) (prependSession (newSession sessionId text' createdAt) ss)"
  using inv by (auto simp: wellMinted_def prependSession_def newSession_def minted_mono)

lemma fresh_user_id:
  assumes "distinct (userMints (ms @ [AppendUser sessionId t text' attachments]))"
    and "minted ms sessionId i"
  shows "i \<noteq> userMessageIdAt t"
proof
  assume eq: "i = userMessageIdAt t"
  from assms(1) have notin: "(sessionId, t) \<notin> set (userMints ms)"
    by (simp add: userMints_append)
  from assms(2) show False unfolding minted_def
  proof (elim disjE exE conjE)
    fix u assume "i = userMessageIdAt u" and "(sessionId, u) \<in> set (userMints ms)"
    with eq notin show False by (auto dest: userMessageIdAt_inj)
  next
    fix u assume "i = modelMessageIdAt u"
    with eq user_model_ids_differ [of t u] show False by simp
  next
    fix u assume "i = errorMessageIdAt u"
    with eq error_user_ids_differ [of u t] show False by simp
  qed
qed

lemma fresh_placeholder_id:
  assumes "distinct (placeholderMints (ms @ [AppendPlaceholder sessionId t]))"
    and "minted ms sessionId i"
  shows "i \<noteq> modelMessageIdAt t"
proof
  assume eq: "i = modelMessageIdAt t"
  from assms(1) have notin: "(sessionId, t) \<notin> set (placeholderMints ms)"
    by (simp add: placeholderMints_append)
  from assms(2) show False unfolding minted_def
  proof (elim disjE exE conjE)
    fix u assume "i = userMessageIdAt u"
    with eq user_model_ids_differ [of u t] show False by simp
  next
    fix u assume "i = modelMessageIdAt u" and "(sessionId, u) \<in> set (placeholderMints ms)"
    with eq notin show False by (auto dest: modelMessageIdAt_inj)
  next
    fix u assume "i = errorMessageIdAt u"
    with eq error_model_ids_differ [of u t] show False by simp
  qed
qed

lemma fresh_error_id:
  assumes "distinct (errorMints (ms @ [AppendError sessionId t]))"
    and "minted ms sessionId i"
  shows "i \<noteq> errorMessageIdAt t"
proof
  assume eq: "i = errorMessageIdAt t"
  from assms(1) have notin: "(sessionId, t) \<notin> set (errorMints ms)"
    by (simp add: errorMints_append)
  from assms(2) show False unfolding minted_def
  proof (elim disjE exE conjE)
    fix u assume "i = userMessageIdAt u"
    with eq error_user_ids_differ [of t u] show False by simp
  next
    fix u assume "i = modelMessageIdAt u"
    with eq error_model_ids_differ [of t u] show False by simp
  next
    fix u assume "i = errorMessageIdAt u" and "(sessionId, u) \<in> set (errorMints ms)"
    with eq notin show False by (auto dest: errorMessageIdAt_inj)
  qed
qed

lemma wellMinted_step:
  assumes inv: "wellMinted ms ss"
    and u: "distinct (userMints (ms @ [m]))"
    and p: "distinct (placeholderMints (ms @ [m]))"
    and e: "distinct (errorMints (ms @ [m]))"
  shows "wellMinted (ms @ [m]) (mutate m ss)"
proof (cases m)
  case (CreateSession now text' createdAt)
  with inv show ?thesis by (simp add: wellMinted_prepend)
next
  case m: (AppendUser sessionId t text' attachments)
  have "wellMinted (ms @ [m]) (appendMessage sessionId (userMessage t text' attachments) ss)"
  proof (rule wellMinted_append_message [OF inv])
    show "minted (ms @ [m]) sessionId (m_id (userMessage t text' attachments))"
      by (auto simp: m minted_def userMints_append userMessage_def)
  next
    fix i assume "minted ms sessionId i"
    with u show "i \<noteq> m_id (userMessage t text' attachments)"
      by (simp add: m userMessage_def fresh_user_id)
  qed
  with m show ?thesis by simp
next
  case m: (AppendPlaceholder sessionId t)
  have "wellMinted (ms @ [m]) (appendMessage sessionId (modelMessage (modelMessageIdAt t)) ss)"
  proof (rule wellMinted_append_message [OF inv])
    show "minted (ms @ [m]) sessionId (m_id (modelMessage (modelMessageIdAt t)))"
      by (auto simp: m minted_def placeholderMints_append modelMessage_def)
  next
    fix i assume "minted ms sessionId i"
    with p show "i \<noteq> m_id (modelMessage (modelMessageIdAt t))"
      by (simp add: m modelMessage_def fresh_placeholder_id)
  qed
  with m show ?thesis by simp
next
  case (FoldFragment sessionId t modelResponse)
  with inv show ?thesis by (simp add: wellMinted_foldResponse)
next
  case m: (AppendError sessionId t)
  have "wellMinted (ms @ [m]) (appendMessage sessionId (errorMsg t) ss)"
  proof (rule wellMinted_append_message [OF inv])
    show "minted (ms @ [m]) sessionId (m_id (errorMsg t))"
      by (auto simp: m minted_def errorMints_append errorMsg_def)
  next
    fix i assume "minted ms sessionId i"
    with e show "i \<noteq> m_id (errorMsg t)"
      by (simp add: m errorMsg_def fresh_error_id)
  qed
  with m show ?thesis by simp
qed

lemma wellMinted_fold:
  "distinct (userMints ms) \<Longrightarrow> distinct (placeholderMints ms) \<Longrightarrow> distinct (errorMints ms) \<Longrightarrow>
   wellMinted ms (fold mutate ms [])"
proof (induction ms rule: rev_induct)
  case Nil
  show ?case by (simp add: wellMinted_def)
next
  case (snoc m ms)
  from snoc.prems have "distinct (userMints ms)" "distinct (placeholderMints ms)"
    "distinct (errorMints ms)"
    by (simp_all add: userMints_append placeholderMints_append errorMints_append)
  then have "wellMinted ms (fold mutate ms [])" by (rule snoc.IH)
  from wellMinted_step [OF this snoc.prems] show ?case by simp
qed

section \<open>Facts about the stored form\<close>

lemma those_Some: "those (map Some xs) = Some xs"
  by (induction xs) simp_all

lemma those_map_Some:
  assumes "\<And>x. f (g x) = Some x"
  shows "those (map (\<lambda>x. f (g x)) xs) = Some xs"
  by (induction xs) (simp_all add: assms)

lemma asArray_JArray:
  assumes "\<And>x. f (g x) = Some x"
  shows "asArray f (JArray (map g xs)) = Some xs"
  using those_map_Some [of f g xs, OF assms] by (simp add: asArray_def comp_def)

lemma asAttachment_attachmentJson: "asAttachment (attachmentJson a) = Some a"
  by (simp add: asAttachment_def attachmentJson_def property_def asString_def)

lemma asRole_roleJson: "asRole (roleJson r) = Some r"
  by (cases r) (simp_all add: asRole_def roleJson_def)

lemma asMessage_messageJson: "asMessage (messageJson m) = Some m"
  by (cases "m_attachments m")
     (simp_all add: asMessage_def messageJson_def property_def asString_def asRole_roleJson
       asArray_JArray asAttachment_attachmentJson)

lemma asSession_sessionJson: "asSession (sessionJson s) = Some s"
  by (simp add: asSession_def sessionJson_def property_def asString_def
       asArray_JArray asMessage_messageJson)

lemma asSessions_sessionsJson: "asSessions (sessionsJson ss) = Some ss"
  by (simp add: asSessions_def sessionsJson_def asArray_JArray asSession_sessionJson)

lemma load_handled_cases:
  "blocked ls \<Longrightarrow> loadedSessions ls = Some []"
  "\<not> blocked ls \<Longrightarrow> chatSessions ls = None \<Longrightarrow> loadedSessions ls = Some []"
  "\<not> blocked ls \<Longrightarrow> chatSessions ls = Some (NotJson s) \<Longrightarrow> loadedSessions ls = Some []"
  "\<not> blocked ls \<Longrightarrow> chatSessions ls = Some (JSON_stringify ss) \<Longrightarrow> loadedSessions ls = Some ss"
  by (simp_all add: loadedSessions_def loadEffect_def getItem_def truthy_def JSON_parse_def
      JSON_stringify_def asSessions_sessionsJson)
     (simp_all add: asSessions_def asArray_def)

section \<open>Evaluating the example runs\<close>

lemmas run_defs =
  mountedApp_def initialApp_def helloScript_def askedApp_def faultScript_def freshApp_def
  switchScript_def photo_def exampleMutations_def failedApp_def retryApp_def retryScript_def
  collideScript_def
  initializeChat_begin_def initializeChat_settle_def startNewChat_def loadChat_def
  handleSendMessage_def handleSendMessage_begin_def handleSendMessage_user_def
  handleSendMessage_placeholder_def handleSendMessage_catch_def handleSendMessage_try_def
  trim_def isWhiteSpace_def prependSession_def appendMessage_def foldResponse_def
  findSession_def messagesOf_def currentMessages_def
  newSession_def toAttachment_def userMessage_def modelMessage_def errorMsg_def errorMessage_def
  sessionIdAt_def userMessageIdAt_def modelMessageIdAt_def errorMessageIdAt_def
  decimal.simps digit_def Let_def

lemma askedApp_value:
  "askedApp = \<lparr>view = Chat,
     sessions = [\<lparr>s_id = ''session-5'', s_title = ''Hi'',
        s_messages = [\<lparr>m_id = ''msg-5'', m_role = User, m_text = ''Hi'', m_attachments = Some []\<rparr>],
        s_createdAt = ''2024-05-01T10:00:00.000Z''\<rparr>],
     currentSessionId = Some ''session-5'', isLoading = True, error = None,
     chatRef = Some (Handle 0)\<rparr>"
  by (simp add: run_defs)

lemma faulted_value:
  "messagesOf ''session-5'' (sessions (handleSendMessage_try faultScript ''session-5'' askedApp)) =
     [\<lparr>m_id = ''msg-5'', m_role = User, m_text = ''Hi'', m_attachments = Some []\<rparr>,
      \<lparr>m_id = ''msg-7-model'', m_role = Model, m_text = ''Hello'', m_attachments = None\<rparr>,
      \<lparr>m_id = ''err-9'', m_role = Model, m_text = ''An error occurred. Please try again.'',
       m_attachments = None\<rparr>]"
  by (simp add: askedApp_value faultScript_def helloScript_def handleSendMessage_try_def
      handleSendMessage_placeholder_def handleSendMessage_catch_def appendMessage_def
      foldResponse_def findSession_def messagesOf_def modelMessage_def errorMsg_def
      errorMessage_def modelMessageIdAt_def errorMessageIdAt_def decimal.simps digit_def Let_def)

lemma freshApp_value:
  "freshApp = \<lparr>view = Main,
     sessions = [\<lparr>s_id = ''session-5'', s_title = ''Hi'',
        s_messages = [\<lparr>m_id = ''msg-5'', m_role = User, m_text = ''Hi'', m_attachments = Some []\<rparr>],
        s_createdAt = ''2024-05-01T10:00:00.000Z''\<rparr>],
     currentSessionId = None, isLoading = False, error = None,
     chatRef = Some (Handle 1)\<rparr>"
  by (simp add: freshApp_def askedApp_value startNewChat_def initializeChat_begin_def
      initializeChat_settle_def)

lemma switch_begin:
  "handleSendMessage_begin (nowSession switchScript) (isoCreated switchScript) ''Yo'' [] freshApp =
   Some (''session-8'',
     \<lparr>view = Main,
      sessions = [\<lparr>s_id = ''session-8'', s_title = ''Yo'', s_messages = [],
                   s_createdAt = ''2024-05-01T10:00:01.000Z''\<rparr>,
        \<lparr>s_id = ''session-5'', s_title = ''Hi'',
         s_messages = [\<lparr>m_id = ''msg-5'', m_role = User, m_text = ''Hi'', m_attachments = Some []\<rparr>],
         s_createdAt = ''2024-05-01T10:00:00.000Z''\<rparr>],
      currentSessionId = Some ''session-8'', isLoading = True, error = None,
      chatRef = Some (Handle 1)\<rparr>)"
  by (simp add: freshApp_value switchScript_def handleSendMessage_begin_def trim_def
      isWhiteSpace_def prependSession_def newSession_def sessionIdAt_def decimal.simps digit_def
      Let_def)


lemma hello_twice_ids:
  "map m_id (currentMessages (handleSendMessage helloScript ''Again'' []
      (handleSendMessage helloScript ''Hi'' [] mountedApp))) =
   [''msg-5'', ''msg-5-model'', ''msg-5'', ''msg-5-model'']"
  by (simp add: run_defs)

lemma example_mints:
  "userMints exampleMutations = [(''session-5'', 5), (''session-5'', 6)]"
  "placeholderMints exampleMutations = [(''session-5'', 5), (''session-5'', 6)]"
  "errorMints exampleMutations = [(''session-5'', 6)]"
  by (simp_all add: exampleMutations_def)

lemma begin_defined:
  "trim text' \<noteq> [] \<or> files \<noteq> [] \<Longrightarrow>
   handleSendMessage_begin now createdAt text' files freshApp =
   Some (sessionIdAt now, snd (the (handleSendMessage_begin now createdAt text' files freshApp)))"
  by (auto simp: handleSendMessage_begin_def freshApp_value Let_def)

lemma idOf_error: "idOf origin = errorMessageIdAt t \<longleftrightarrow> origin = ErrorAt t"
proof (cases origin)
  case (UserAt u)
  with error_user_ids_differ [of t u] show ?thesis by auto
next
  case (PlaceholderAt u)
  with error_model_ids_differ [of t u] show ?thesis by auto
next
  case (ErrorAt u)
  then show ?thesis by (auto dest: errorMessageIdAt_inj)
qed

lemma error_id_among: "errorMessageIdAt t \<in> set (map idOf origins) \<longleftrightarrow> ErrorAt t \<in> set origins"
proof
  assume "errorMessageIdAt t \<in> set (map idOf origins)"
  then obtain origin where "origin \<in> set origins" and "idOf origin = errorMessageIdAt t" by auto
  then show "ErrorAt t \<in> set origins" by (simp add: idOf_error)
next
  assume "ErrorAt t \<in> set origins"
  then have "idOf (ErrorAt t) \<in> set (map idOf origins)" by (simp only: set_map) (rule imageI)
  then show "errorMessageIdAt t \<in> set (map idOf origins)" by simp
qed

lemma touchesOnly_refl: "touchesOnly sessionId ss ss"
  by (simp add: touchesOnly_def list_all2_same)






lemma failedApp_value:
  "failedApp = \<lparr>view = Chat,
     sessions = [\<lparr>s_id = ''session-5'', s_title = ''Hi'',
        s_messages = [\<lparr>m_id = ''msg-5'', m_role = User, m_text = ''Hi'', m_attachments = Some []\<rparr>,
          \<lparr>m_id = ''err-9'', m_role = Model, m_text = ''An error occurred. Please try again.'',
           m_attachments = None\<rparr>],
        s_createdAt = ''2024-05-01T10:00:00.000Z''\<rparr>],
     currentSessionId = Some ''session-5'', isLoading = False,
     error = Some ''An error occurred. Please try again.'',
     chatRef = Some (Handle 0)\<rparr>"
  by (simp add: failedApp_def askedApp_value helloScript_def handleSendMessage_try_def
      handleSendMessage_catch_def appendMessage_def errorMsg_def errorMessage_def
      errorMessageIdAt_def decimal.simps digit_def Let_def)

lemma retryApp_value:
  "retryApp = \<lparr>view = Chat,
     sessions = [\<lparr>s_id = ''session-5'', s_title = ''Hi'',
        s_messages = [\<lparr>m_id = ''msg-5'', m_role = User, m_text = ''Hi'', m_attachments = Some []\<rparr>,
          \<lparr>m_id = ''err-9'', m_role = Model, m_text = ''An error occurred. Please try again.'',
           m_attachments = None\<rparr>,
          \<lparr>m_id = ''msg-9'', m_role = User, m_text = ''Again'', m_attachments = Some []\<rparr>],
        s_createdAt = ''2024-05-01T10:00:00.000Z''\<rparr>],
     currentSessionId = Some ''session-5'', isLoading = True, error = None,
     chatRef = Some (Handle 0)\<rparr>"
  by (simp add: retryApp_def failedApp_value handleSendMessage_begin_def handleSendMessage_user_def
      trim_def isWhiteSpace_def appendMessage_def userMessage_def userMessageIdAt_def
      decimal.simps digit_def Let_def)

lemma retry_ids:
  "map m_id (messagesOf ''session-5'' (sessions (handleSendMessage_try retryScript ''session-5'' retryApp))) =
   [''msg-5'', ''err-9'', ''msg-9'', ''msg-9-model'', ''err-9'']"
  by (simp add: retryApp_value retryScript_def helloScript_def handleSendMessage_try_def
      handleSendMessage_placeholder_def handleSendMessage_catch_def appendMessage_def
      foldResponse_def findSession_def messagesOf_def modelMessage_def errorMsg_def
      errorMessage_def modelMessageIdAt_def errorMessageIdAt_def decimal.simps digit_def Let_def)


section \<open>The claims\<close>

text \<open>
  Claim C1, as the code has it. When \<open>handleSendMessage\<close> creates a session, the new id
  is \<open>session-\<close> followed by the clock reading, and the session is put in front of the
  list. In a store whose sessions were created by this path, at the clock readings
  \<open>readings\<close>, the new id equals the id of an existing session exactly when the present
  reading is one of them: it is distinct from every session created in another
  millisecond, and equal to the id of a session created in the same one.
\<close>

theorem fresh_session_id:
  assumes "handleSendMessage_begin now createdAt text' files st = Some (sessionId, st1)"
    and "currentSessionId st = None \<or> currentSessionId st = Some []"
    and "map s_id (sessions st) = map sessionIdAt readings"
  shows "sessionId = sessionIdAt now \<and>
         map s_id (sessions st1) = sessionId # map s_id (sessions st) \<and>
         (sessionId \<in> set (map s_id (sessions st)) \<longleftrightarrow> now \<in> set readings)"
proof -
  from begin_cases [OF assms(1)] assms(2)
  have sid: "sessionId = sessionIdAt now"
    and st1: "sessions st1 = newSession sessionId text' createdAt # sessions st"
    by auto
  have "sessionIdAt now \<in> set (map sessionIdAt readings) \<longleftrightarrow> now \<in> set readings"
    by (auto dest: sessionIdAt_inj)
  with sid st1 assms(3) show ?thesis by (simp add: newSession_def)
qed

theorem fresh_session_id_witness:
  "currentSessionId freshApp = None \<and>
   map s_id (sessions freshApp) = map sessionIdAt [5] \<and>
   map_option fst (handleSendMessage_begin (nowSession switchScript) (isoCreated switchScript)
      ''Yo'' [] freshApp) = Some ''session-8'' \<and>
   ''session-8'' \<notin> set (map s_id (sessions freshApp))"
proof -
  have cur: "currentSessionId freshApp = None \<or> currentSessionId freshApp = Some []"
    by (simp add: freshApp_value)
  have ids: "map s_id (sessions freshApp) = map sessionIdAt [5]"
    by (simp add: freshApp_value sessionIdAt_def decimal.simps digit_def)
  have tick: "nowSession switchScript \<notin> set [5]" by (simp add: switchScript_def)
  from fresh_session_id [OF switch_begin cur ids] tick
  have "''session-8'' \<notin> set (map s_id (sessions freshApp))" by blast
  moreover have "currentSessionId freshApp = None" by (simp add: freshApp_value)
  moreover have "map_option fst (handleSendMessage_begin (nowSession switchScript)
      (isoCreated switchScript) ''Yo'' [] freshApp) = Some ''session-8''"
    by (simp add: switch_begin)
  ultimately show ?thesis using ids by (intro conjI)
qed

text \<open>
  The freshness of claim C1 fails within one clock tick: a session was created in
  millisecond 5, the user starts a new chat, and the next send, still in millisecond 5,
  creates a second session with the id \<open>session-5\<close>.
\<close>

theorem session_id_collision:
  "currentSessionId freshApp = None \<and>
   map s_id (sessions freshApp) = [''session-5''] \<and>
   map_option fst (handleSendMessage_begin 5 ''2024-05-01T10:00:00.004Z'' ''Yo'' [] freshApp) =
     Some ''session-5'' \<and>
   map_option (\<lambda>p. map s_id (sessions (snd p)))
     (handleSendMessage_begin 5 ''2024-05-01T10:00:00.004Z'' ''Yo'' [] freshApp) =
     Some [''session-5'', ''session-5'']"
  by (simp add: freshApp_value handleSendMessage_begin_def trim_def isWhiteSpace_def
      prependSession_def newSession_def sessionIdAt_def decimal.simps digit_def Let_def)

text \<open>
  Claim C2, as the code has it. Start from the empty session list and apply any sequence
  of the mutations of \<open>handleSendMessage\<close> (session creation, user message, placeholder,
  fragment fold, error message). If no two user messages, no two placeholders and no two
  error messages are minted for the same session id at the same clock reading, then in
  every session of the resulting list the message ids are pairwise distinct. A user
  message and a placeholder minted in the same millisecond are covered.
\<close>

theorem message_ids_distinct:
  assumes "distinct (userMints ms)" and "distinct (placeholderMints ms)"
    and "distinct (errorMints ms)"
  shows "\<forall>s\<in>set (fold mutate ms []). distinct (map m_id (s_messages s))"
  using wellMinted_fold [OF assms] by (simp add: wellMinted_def)

theorem message_ids_distinct_witness:
  "distinct (userMints exampleMutations) \<and> distinct (placeholderMints exampleMutations) \<and>
   distinct (errorMints exampleMutations) \<and>
   list_all (\<lambda>s. distinct (map m_id (s_messages s))) (fold mutate exampleMutations []) \<and>
   map (\<lambda>s. map m_id (s_messages s)) (fold mutate exampleMutations []) =
     [[''msg-5'', ''msg-5-model'', ''msg-6'', ''msg-6-model'', ''err-6'']]"
proof -
  have u: "distinct (userMints exampleMutations)"
    and p: "distinct (placeholderMints exampleMutations)"
    and e: "distinct (errorMints exampleMutations)"
    by (simp_all add: example_mints)
  from message_ids_distinct [OF u p e]
  have "list_all (\<lambda>s. distinct (map m_id (s_messages s))) (fold mutate exampleMutations [])"
    by (simp add: list_all_iff)
  moreover have "map (\<lambda>s. map m_id (s_messages s)) (fold mutate exampleMutations []) =
     [[''msg-5'', ''msg-5-model'', ''msg-6'', ''msg-6-model'', ''err-6'']]"
    by (simp add: run_defs)
  ultimately show ?thesis using u p e by (intro conjI)
qed

text \<open>
  The distinctness of claim C2 fails for two sends that complete within one clock tick:
  both mint the user message id \<open>msg-5\<close> and the placeholder id \<open>msg-5-model\<close> for the
  same session.
\<close>

theorem same_tick_sends_share_ids:
  "\<not> distinct (map m_id (currentMessages (handleSendMessage helloScript ''Again'' []
      (handleSendMessage helloScript ''Hi'' [] mountedApp))))"
  by (simp add: hello_twice_ids)

text \<open>
  Claim C3. In the \<open>try\<close> block of a send whose stream opens, the placeholder id is fixed
  before the first fragment arrives and the accumulated text starts empty. Observe the
  send when the stream has delivered its first \<open>k\<close> items (fragments, possibly
  interleaved with other events of the controller): the session has exactly one message
  more than when the block was entered, that message carries the placeholder id and its
  text is the concatenation, in delivery order, of the fragments delivered so far, and the
  ids of the earlier messages are as they were. For the fragments \<open>Hel\<close>, \<open>lo\<close> the text
  reads \<open>Hel\<close> after the first and \<open>Hello\<close> after the second.
\<close>

theorem fragments_fold_in_order:
  assumes "findSession sessionId (sessions st) \<noteq> None"
    and "chatRef st \<noteq> None" and "opened sc"
  shows "let before = messagesOf sessionId (sessions st);
             after = messagesOf sessionId (sessions
               (handleSendMessage_try (sc\<lparr>stream := take k (stream sc), faulted := False\<rparr>)
                  sessionId st))
         in length after = Suc (length before) \<and>
            after ! length before =
              \<lparr>m_id = modelMessageIdAt (nowModel sc), m_role = Model,
               m_text = concat (fragments (take k (stream sc))), m_attachments = None\<rparr> \<and>
            map m_id (take (length before) after) = map m_id before"
  using assms
  by (auto simp: Let_def sessions_try consume_sessions sessions_placeholder sessions_fold_ui_step
      messagesOf_foldResponse messagesOf_appendMessage nth_append modelMessage_def comp_def)

theorem fragments_fold_in_order_witness:
  "findSession ''session-5'' (sessions askedApp) \<noteq> None \<and> chatRef askedApp \<noteq> None \<and>
   opened helloScript \<and>
   messagesOf ''session-5'' (sessions
     (handleSendMessage_try (helloScript\<lparr>stream := take 1 (stream helloScript), faulted := False\<rparr>)
        ''session-5'' askedApp)) ! 1 =
     \<lparr>m_id = ''msg-5-model'', m_role = Model, m_text = ''Hel'', m_attachments = None\<rparr> \<and>
   messagesOf ''session-5'' (sessions
     (handleSendMessage_try (helloScript\<lparr>stream := take 2 (stream helloScript), faulted := False\<rparr>)
        ''session-5'' askedApp)) ! 1 =
     \<lparr>m_id = ''msg-5-model'', m_role = Model, m_text = ''Hello'', m_attachments = None\<rparr>"
proof -
  have present: "findSession ''session-5'' (sessions askedApp) \<noteq> None"
    by (simp add: askedApp_value findSession_def)
  have handle: "chatRef askedApp \<noteq> None" by (simp add: askedApp_value)
  have opened: "opened helloScript" by (simp add: helloScript_def)
  have before: "length (messagesOf ''session-5'' (sessions askedApp)) = 1"
    by (simp add: askedApp_value findSession_def messagesOf_def)
  have id5: "modelMessageIdAt (nowModel helloScript) = ''msg-5-model''"
    by (simp add: helloScript_def modelMessageIdAt_def decimal.simps digit_def)
  have one: "concat (fragments (take 1 (stream helloScript))) = ''Hel''"
    and two: "concat (fragments (take 2 (stream helloScript))) = ''Hello''"
    by (simp_all add: helloScript_def)
  from fragments_fold_in_order [OF present handle opened, of 1] before id5 one
  have first: "messagesOf ''session-5'' (sessions
     (handleSendMessage_try (helloScript\<lparr>stream := take 1 (stream helloScript), faulted := False\<rparr>)
        ''session-5'' askedApp)) ! 1 =
     \<lparr>m_id = ''msg-5-model'', m_role = Model, m_text = ''Hel'', m_attachments = None\<rparr>"
    by (simp add: Let_def)
  from fragments_fold_in_order [OF present handle opened, of 2] before id5 two
  have second: "messagesOf ''session-5'' (sessions
     (handleSendMessage_try (helloScript\<lparr>stream := take 2 (stream helloScript), faulted := False\<rparr>)
        ''session-5'' askedApp)) ! 1 =
     \<lparr>m_id = ''msg-5-model'', m_role = Model, m_text = ''Hello'', m_attachments = None\<rparr>"
    by (simp add: Let_def)
  from present handle opened first second show ?thesis by (intro conjI)
qed

text \<open>
  Claim C4, as the code has it. When the stream throws after having delivered fragments,
  the placeholder keeps the concatenation of the fragments delivered (nothing is rolled
  back), one error message of role model follows it, and the session has exactly two
  messages more (placeholder and error message) than when the streaming send started,
  that is, than when the \<open>try\<close> block was entered with the user message already
  appended. The earlier messages keep their ids and order. The id of the error message is
  \<open>err-\<close> followed by the clock reading: it differs from the placeholder's id, and among
  earlier messages whose ids this program minted it occurs exactly when one of them is an
  error message minted at the same clock reading.
\<close>

theorem stream_fault_keeps_partial_text:
  assumes "findSession sessionId (sessions st) \<noteq> None"
    and "chatRef st \<noteq> None" and "opened sc" and "faulted sc"
  shows "let before = messagesOf sessionId (sessions st);
             after = messagesOf sessionId (sessions (handleSendMessage_try sc sessionId st))
         in length after = length before + 2 \<and>
            after ! length before =
              \<lparr>m_id = modelMessageIdAt (nowModel sc), m_role = Model,
               m_text = concat (fragments (stream sc)), m_attachments = None\<rparr> \<and>
            after ! Suc (length before) =
              \<lparr>m_id = errorMessageIdAt (nowError sc), m_role = Model,
               m_text = errorMessage, m_attachments = None\<rparr> \<and>
            errorMessageIdAt (nowError sc) \<noteq> modelMessageIdAt (nowModel sc) \<and>
            map m_id (take (length before) after) = map m_id before \<and>
            (map m_id before = map idOf origins \<longrightarrow>
               (errorMessageIdAt (nowError sc) \<in> set (map m_id before) \<longleftrightarrow>
                ErrorAt (nowError sc) \<in> set origins))"
  using assms error_model_ids_differ [of "nowError sc" "nowModel sc"]
    error_id_among [of "nowError sc" origins]
  by (simp add: Let_def sessions_try consume_sessions sessions_placeholder sessions_fold_ui_step
      messagesOf_foldResponse messagesOf_appendMessage findSession_appendMessage
      findSession_foldResponse nth_append modelMessage_def errorMsg_def comp_def)

theorem stream_fault_keeps_partial_text_witness:
  "findSession ''session-5'' (sessions askedApp) \<noteq> None \<and> chatRef askedApp \<noteq> None \<and>
   opened faultScript \<and> faulted faultScript \<and>
   length (messagesOf ''session-5'' (sessions askedApp)) = 1 \<and>
   map m_id (messagesOf ''session-5'' (sessions askedApp)) = map idOf [UserAt 5] \<and>
   length (messagesOf ''session-5''
     (sessions (handleSendMessage_try faultScript ''session-5'' askedApp))) = 3 \<and>
   m_text (messagesOf ''session-5''
     (sessions (handleSendMessage_try faultScript ''session-5'' askedApp)) ! 1) = ''Hello'' \<and>
   errorMessageIdAt (nowError faultScript) \<notin>
     set (map m_id (messagesOf ''session-5'' (sessions askedApp)))"
proof -
  have present: "findSession ''session-5'' (sessions askedApp) \<noteq> None"
    by (simp add: askedApp_value findSession_def)
  have handle: "chatRef askedApp \<noteq> None" by (simp add: askedApp_value)
  have opened: "opened faultScript" and faulted: "faulted faultScript"
    by (simp_all add: faultScript_def helloScript_def)
  have before: "length (messagesOf ''session-5'' (sessions askedApp)) = 1"
    by (simp add: askedApp_value findSession_def messagesOf_def)
  have origins: "map m_id (messagesOf ''session-5'' (sessions askedApp)) = map idOf [UserAt 5]"
    by (simp add: askedApp_value findSession_def messagesOf_def userMessageIdAt_def
        decimal.simps digit_def)
  have frags: "concat (fragments (stream faultScript)) = ''Hello''"
    by (simp add: faultScript_def helloScript_def)
  note run = stream_fault_keeps_partial_text [OF present handle opened faulted, of "[UserAt 5]"]
  from run before frags
  have len: "length (messagesOf ''session-5''
          (sessions (handleSendMessage_try faultScript ''session-5'' askedApp))) = 3"
    and kept_text: "m_text (messagesOf ''session-5''
          (sessions (handleSendMessage_try faultScript ''session-5'' askedApp)) ! 1) = ''Hello''"
    by (simp_all add: Let_def)
  from run origins
  have new: "errorMessageIdAt (nowError faultScript) \<notin>
     set (map m_id (messagesOf ''session-5'' (sessions askedApp)))"
    by (simp add: Let_def)
  from present handle opened faulted before origins len kept_text new show ?thesis by (intro conjI)
qed

text \<open>
  The error message of claim C4 does not always get a new id: the first send failed in
  millisecond 9, the second streams two fragments and throws in the same millisecond, and
  the session then holds two messages with the id \<open>err-9\<close>.
\<close>

theorem error_id_repeats_within_tick:
  "findSession ''session-5'' (sessions retryApp) \<noteq> None \<and> chatRef retryApp \<noteq> None \<and>
   opened retryScript \<and> faulted retryScript \<and>
   fragments (stream retryScript) = [''Hel'', ''lo''] \<and>
   map m_id (messagesOf ''session-5'' (sessions retryApp)) = [''msg-5'', ''err-9'', ''msg-9''] \<and>
   map m_id (messagesOf ''session-5''
     (sessions (handleSendMessage_try retryScript ''session-5'' retryApp))) =
     [''msg-5'', ''err-9'', ''msg-9'', ''msg-9-model'', ''err-9'']"
  by (simp add: retry_ids) (simp add: retryApp_value retryScript_def helloScript_def
      findSession_def messagesOf_def)




text \<open>
  Claim C6. A session created by \<open>handleSendMessage\<close> gets as title the first 40
  characters of the text of the call, or \<open>New Chat\<close> when that text is empty; the user
  message the call then appends is the first message of the new session and carries this
  text. No later mutation of the session list changes a title: after any sequence of
  mutations the titles of the sessions are those of before, with the titles of sessions
  created since in front.
\<close>

theorem title_from_first_message:
  assumes "handleSendMessage_begin now createdAt text' files st = Some (sessionId, st1)"
    and "currentSessionId st = None \<or> currentSessionId st = Some []"
  shows "sessions st1 =
           \<lparr>s_id = sessionIdAt now,
            s_title = (if text' = [] then ''New Chat'' else take 40 text'),
            s_messages = [], s_createdAt = createdAt\<rparr> # sessions st \<and>
         s_messages (hd (sessions (handleSendMessage_user nowU view0 sessionId text' files st1))) =
           [\<lparr>m_id = userMessageIdAt nowU, m_role = User, m_text = text',
             m_attachments = Some (map toAttachment files)\<rparr>] \<and>
         (\<exists>new. map s_title (fold mutate ms (sessions st1)) = new @ map s_title (sessions st1))"
proof -
  from begin_cases [OF assms(1)] assms(2)
  have sid: "sessionId = sessionIdAt now"
    and st1: "sessions st1 = newSession sessionId text' createdAt # sessions st"
    by auto
  from st1 sid have created: "sessions st1 =
           \<lparr>s_id = sessionIdAt now,
            s_title = (if text' = [] then ''New Chat'' else take 40 text'),
            s_messages = [], s_createdAt = createdAt\<rparr> # sessions st"
    by (simp add: newSession_def Let_def)
  have first: "s_messages (hd (sessions (handleSendMessage_user nowU view0 sessionId text' files st1))) =
           [\<lparr>m_id = userMessageIdAt nowU, m_role = User, m_text = text',
             m_attachments = Some (map toAttachment files)\<rparr>]"
    by (simp add: sessions_user created sid appendMessage_def userMessage_def)
  from created first titles_fold_mutate [of ms "sessions st1"] show ?thesis by blast
qed

theorem title_from_first_message_witness:
  "currentSessionId freshApp = None \<and>
   map s_title (sessions (snd (the (handleSendMessage_begin 8 ''2024-05-01T10:00:01.000Z''
       ''Which of the orbitals 3d, 4s and 4p is filled first?'' [] freshApp)))) =
     [''Which of the orbitals 3d, 4s and 4p is f'', ''Hi''] \<and>
   map s_title (sessions (snd (the (handleSendMessage_begin 8 ''2024-05-01T10:00:01.000Z''
       [] [photo] freshApp)))) =
     [''New Chat'', ''Hi'']"
proof -
  have cur: "currentSessionId freshApp = None \<or> currentSessionId freshApp = Some []"
    by (simp add: freshApp_value)
  have long: "trim ''Which of the orbitals 3d, 4s and 4p is filled first?'' \<noteq> [] \<or> ([]::File list) \<noteq> []"
    by (simp add: trim_def isWhiteSpace_def)
  have attached: "trim [] \<noteq> [] \<or> [photo] \<noteq> []" by simp
  note a = title_from_first_message [OF begin_defined [OF long] cur, THEN conjunct1]
  note b = title_from_first_message [OF begin_defined [OF attached] cur, THEN conjunct1]
  have "currentSessionId freshApp = None" by (simp add: freshApp_value)
  moreover have "map s_title (sessions (snd (the (handleSendMessage_begin 8 ''2024-05-01T10:00:01.000Z''
       ''Which of the orbitals 3d, 4s and 4p is filled first?'' [] freshApp)))) =
     [''Which of the orbitals 3d, 4s and 4p is f'', ''Hi'']"
    by (simp add: a) (simp add: freshApp_value)
  moreover have "map s_title (sessions (snd (the (handleSendMessage_begin 8 ''2024-05-01T10:00:01.000Z''
       [] [photo] freshApp)))) = [''New Chat'', ''Hi'']"
    by (simp add: b) (simp add: freshApp_value)
  ultimately show ?thesis by (intro conjI)
qed

text \<open>
  Claim C7, at a stored string the load operation does not recover from. The load effect
  never throws, and it yields the empty list for an absent key and for a string that does
  not parse (\<open>load_handled_cases\<close>). A stored string that parses to something other than
  a session list, such as \<open>null\<close>, is not replaced by the empty list: the parsed value
  itself is handed to \<open>setSessions\<close>, and the state then holds no session list.
\<close>

theorem load_keeps_malformed_value:
  "loadEffect \<lparr>chatSessions = Some (JsonText JNull), blocked = False, full = False\<rparr> = Some JNull \<and>
   loadedSessions \<lparr>chatSessions = Some (JsonText JNull), blocked = False, full = False\<rparr> = None"
  by (simp add: loadedSessions_def loadEffect_def getItem_def truthy_def JSON_parse_def
      asSessions_def asArray_def)

text \<open>
  Claim C8. For every session list, empty or populated, saving it to the storage and then
  loading yields the same list again, whatever the storage held before. Saving it means
  that the write takes place: the browser does not refuse access and the quota is not
  used up.
\<close>

theorem save_then_load:
  "\<not> blocked ls \<Longrightarrow> \<not> full ls \<Longrightarrow> loadedSessions (saveEffect ss ls) = Some ss"
  by (simp add: saveEffect_def setItem_def load_handled_cases(4))

theorem save_then_load_witness:
  "\<not> blocked \<lparr>chatSessions = Some (NotJson ''{''), blocked = False, full = False\<rparr> \<and>
   \<not> full \<lparr>chatSessions = Some (NotJson ''{''), blocked = False, full = False\<rparr> \<and>
   loadedSessions (saveEffect (sessions (handleSendMessage switchScript ''Yo'' [] freshApp))
     \<lparr>chatSessions = Some (NotJson ''{''), blocked = False, full = False\<rparr>) =
   Some (sessions (handleSendMessage switchScript ''Yo'' [] freshApp)) \<and>
   loadedSessions (saveEffect [] \<lparr>chatSessions = Some (NotJson ''{''), blocked = False, full = False\<rparr>) =
   Some []"
  using save_then_load [of "\<lparr>chatSessions = Some (NotJson ''{''), blocked = False, full = False\<rparr>"
      "sessions (handleSendMessage switchScript ''Yo'' [] freshApp)"]
    save_then_load [of "\<lparr>chatSessions = Some (NotJson ''{''), blocked = False, full = False\<rparr>" "[]"]
  by simp

text \<open>
  A write the storage refuses is logged and dropped by the save effect (lines 42 to 44):
  loading then yields what the storage held before, here nothing.
\<close>

theorem save_refused_then_load:
  "loadedSessions (saveEffect (sessions askedApp)
     \<lparr>chatSessions = None, blocked = False, full = True\<rparr>) \<noteq> Some (sessions askedApp)"
  by (simp add: askedApp_value saveEffect_def setItem_def load_handled_cases(2))

text \<open>
  Claim C9. A call of \<open>handleSendMessage\<close> whose text is empty or all white space and whose
  file list is empty, or which finds no backend handle, returns at once: the whole
  component state, and with it the session list, the current session id and the view, is
  what it was; no session is created and no message appended.
\<close>

theorem guard_returns_unchanged:
  "((\<forall>c\<in>set text'. isWhiteSpace c) \<and> files = []) \<or> chatRef st = None \<Longrightarrow>
   handleSendMessage sc text' files st = st"
  by (auto simp: handleSendMessage_def handleSendMessage_begin_def trim_empty_iff)

theorem guard_returns_unchanged_witness:
  "list_all isWhiteSpace ''  '' \<and>
   handleSendMessage helloScript ''  '' [] mountedApp = mountedApp \<and>
   chatRef initialApp = None \<and>
   handleSendMessage helloScript ''Hi'' [] initialApp = initialApp"
  using guard_returns_unchanged [of "''  ''" "[]" mountedApp helloScript]
    guard_returns_unchanged [of "''Hi''" "[]" initialApp helloScript]
  by (simp add: isWhiteSpace_def initialApp_def)

text \<open>
  Claim C10. The three ids one call of \<open>handleSendMessage\<close> can mint, for the user message,
  the placeholder and the error message, are pairwise distinct whatever the three clock
  readings are, equal readings included.
\<close>

theorem minted_ids_distinct:
  "distinct (map m_id [userMessage t1 text' attachments, modelMessage (modelMessageIdAt t2), errorMsg t3])"
  using user_model_ids_differ [of t1 t2] error_user_ids_differ [of t3 t1] error_model_ids_differ [of t3 t2]
  by (auto simp: userMessage_def modelMessage_def errorMsg_def)

end
